theory Spec2Isabelle
  imports Main "HOL-Library.Sublist" "HOL-Library.Word"
begin

section \<open>Strings and bytes\<close>

text \<open>
  A Java \<open>byte[]\<close>, a Swift \<open>Data\<close> and a JavaScript \<open>Uint8Array\<close> are lists of
  8-bit words. A text string is the list of the bytes of its UTF-8 encoding, so that an
  ASCII character is one \<open>char\<close> below 128 and any other character is a run of \<open>char\<close>s
  from 128 on; \<open>.\<close>, \<open>/\<close> and \<open>:\<close> never occur inside such a run. The binary string
  that \<open>atob\<close> returns is the list of its code units, each below 256. The operations of
  \<open>java.lang.String\<close> the plugin calls are written out below.
\<close>

type_synonym byte = "8 word"
type_synonym bytes = "byte list"

definition startsWith :: "string \<Rightarrow> string \<Rightarrow> bool" where
  "startsWith s p = prefix p s"

fun lastIndexOf :: "string \<Rightarrow> char \<Rightarrow> int" where
  "lastIndexOf [] c = - 1"
| "lastIndexOf (x # xs) c =
     (let r = lastIndexOf xs c in
      if 0 \<le> r then r + 1 else if x = c then 0 else - 1)"

definition substring :: "string \<Rightarrow> int \<Rightarrow> string" where
  "substring s beginIndex = drop (nat beginIndex) s"

text \<open>Lower-casing of one ASCII letter; every other \<open>char\<close> is left as it is.\<close>

definition toLowerCase_char :: "char \<Rightarrow> char" where
  "toLowerCase_char c =
     (let n = (of_char c :: nat) in
      if 65 \<le> n \<and> n \<le> 90 then char_of (n + 32) else c)"

text \<open>
  Swift's \<open>lowercased()\<close> does not depend on a locale. On ASCII letters it is
  \<open>toLowerCase_char\<close>; no other character becomes an ASCII letter that occurs in the
  MIME types the plugin compares with, so the other bytes are left as they are.
\<close>

definition lowercased :: "string \<Rightarrow> string" where
  "lowercased s = map toLowerCase_char s"

definition isAscii :: "char \<Rightarrow> bool" where
  "isAscii c = ((of_char c :: nat) < 128)"

text \<open>
  Java's \<open>String.toLowerCase()\<close> uses the default locale of the device. Only the
  Turkish and the Azeri locale change how ASCII letters are lower-cased: there \<open>I\<close>
  becomes the dotless \<open>i\<close> (U+0131, the bytes C4 B1).
\<close>

datatype Locale = Turkic | OtherLocale

definition dotless_i :: string where
  "dotless_i = [char_of (196 :: nat), char_of (177 :: nat)]"

definition toLowerCase_ascii :: "Locale \<Rightarrow> string \<Rightarrow> string" where
  "toLowerCase_ascii l s =
     concat (map (\<lambda>c. if l = Turkic \<and> c = CHR ''I'' then dotless_i
                       else [toLowerCase_char c]) s)"

section \<open>Base64\<close>

text \<open>
  The base64 of RFC 4648, section 4: three bytes are one 24-bit number, four characters
  are its four 6-bit digits, and a last group of one or two bytes is padded with \<open>=\<close>.
  \<open>b64_decode\<close> accepts exactly the padded strings over the alphabet; a payload is valid
  base64 when it accepts it. The decoders of Android and of Foundation are outside the
  plugin and are fields of the hosts below; the sample hosts decode with \<open>b64_decode\<close>.
\<close>

definition b64_char :: "nat \<Rightarrow> char" where
  "b64_char v =
     char_of (if v < 26 then v + 65 else if v < 52 then v + 71
              else if v < 62 then v - 4 else if v = 62 then (43::nat) else 47)"

definition b64_value :: "char \<Rightarrow> nat option" where
  "b64_value c =
     (let n = (of_char c :: nat) in
      if 65 \<le> n \<and> n \<le> 90 then Some (n - 65)
      else if 97 \<le> n \<and> n \<le> 122 then Some (n - 71)
      else if 48 \<le> n \<and> n \<le> 57 then Some (n + 4)
      else if n = 43 then Some 62
      else if n = 47 then Some 63
      else None)"

definition group_bytes :: "nat \<Rightarrow> bytes" where
  "group_bytes n = [of_nat (n div 65536), of_nat (n div 256 mod 256), of_nat (n mod 256)]"

definition group_chars :: "nat \<Rightarrow> string" where
  "group_chars n =
     [b64_char (n div 262144), b64_char (n div 4096 mod 64),
      b64_char (n div 64 mod 64), b64_char (n mod 64)]"

fun b64_encode :: "bytes \<Rightarrow> string" where
  "b64_encode [] = []"
| "b64_encode [a] = take 2 (group_chars (unat a * 65536)) @ ''==''"
| "b64_encode [a, b] = take 3 (group_chars (unat a * 65536 + unat b * 256)) @ ''=''"
| "b64_encode (a # b # c # rest) =
     group_chars (unat a * 65536 + unat b * 256 + unat c) @ b64_encode rest"

fun b64_values :: "string \<Rightarrow> nat option" where
  "b64_values [] = Some 0"
| "b64_values (c # cs) =
     (case (b64_value c, b64_values cs) of
        (Some v, Some n) \<Rightarrow> Some (v * 64 ^ length cs + n)
      | _ \<Rightarrow> None)"

fun b64_decode :: "string \<Rightarrow> bytes option" where
  "b64_decode [] = Some []"
| "b64_decode [c0, c1, c2, c3] =
     (if c2 = CHR ''='' \<and> c3 = CHR ''='' then
        map_option (\<lambda>n. take 1 (group_bytes (n * 4096))) (b64_values [c0, c1])
      else if c3 = CHR ''='' then
        map_option (\<lambda>n. take 2 (group_bytes (n * 64))) (b64_values [c0, c1, c2])
      else map_option group_bytes (b64_values [c0, c1, c2, c3]))"
| "b64_decode (c0 # c1 # c2 # c3 # rest) =
     (case (b64_values [c0, c1, c2, c3], b64_decode rest) of
        (Some n, Some bs) \<Rightarrow> Some (group_bytes n @ bs)
      | _ \<Rightarrow> None)"
| "b64_decode _ = None"



text \<open>
  \<open>atob\<close> is the forgiving-base64 decode of the HTML standard: ASCII whitespace is
  removed; when the length is then a multiple of four, one or two \<open>=\<close> at the end are
  removed; a length that leaves a remainder of one, or any character outside the
  alphabet, is an error (\<open>InvalidCharacterError\<close>); bits that do not fill a byte are
  dropped. \<open>forgiving_decode\<close> works on the text without whitespace, four characters
  at a time, so that it meets the padding exactly when the length is a multiple of four.
  The result of \<open>atob\<close> is a binary string: one code unit per byte.
\<close>

definition is_ascii_whitespace :: "char \<Rightarrow> bool" where
  "is_ascii_whitespace c = ((of_char c :: nat) \<in> set [9, 10, 12, 13, 32])"

fun forgiving_decode :: "string \<Rightarrow> bytes option" where
  "forgiving_decode [] = Some []"
| "forgiving_decode [c0, c1] =
     map_option (\<lambda>n. take 1 (group_bytes (n * 4096))) (b64_values [c0, c1])"
| "forgiving_decode [c0, c1, c2] =
     map_option (\<lambda>n. take 2 (group_bytes (n * 64))) (b64_values [c0, c1, c2])"
| "forgiving_decode [c0, c1, c2, c3] =
     (if c2 = CHR ''='' \<and> c3 = CHR ''='' then
        map_option (\<lambda>n. take 1 (group_bytes (n * 4096))) (b64_values [c0, c1])
      else if c3 = CHR ''='' then
        map_option (\<lambda>n. take 2 (group_bytes (n * 64))) (b64_values [c0, c1, c2])
      else map_option group_bytes (b64_values [c0, c1, c2, c3]))"
| "forgiving_decode (c0 # c1 # c2 # c3 # rest) =
     (case (b64_values [c0, c1, c2, c3], forgiving_decode rest) of
        (Some n, Some bs) \<Rightarrow> Some (group_bytes n @ bs)
      | _ \<Rightarrow> None)"
| "forgiving_decode _ = None"

definition fromCharCode :: "byte \<Rightarrow> char" where
  "fromCharCode b = char_of (unat b)"

definition atob :: "string \<Rightarrow> string option" where
  "atob data =
     map_option (map fromCharCode)
       (forgiving_decode (filter (\<lambda>c. \<not> is_ascii_whitespace c) data))"

section \<open>The Android adapter: host environment and state\<close>

text \<open>
  The exceptions the Android adapter can raise, with their messages. \<open>Exception\<close> is
  what the plugin throws itself; the others come out of the platform calls it makes.
\<close>

datatype exn =
    Exception string
  | IllegalArgumentException string
  | IOException string
  | FileNotFoundException string
  | NullPointerException

fun getMessage :: "exn \<Rightarrow> string" where
  "getMessage (Exception m) = m"
| "getMessage (IllegalArgumentException m) = m"
| "getMessage (IOException m) = m"
| "getMessage (FileNotFoundException m) = m"
| "getMessage NullPointerException = []"

text \<open>A decoded raster image; the plugin only passes it on.\<close>

datatype bitmap = Bitmap bytes

text \<open>
  What \<open>ContentResolver.openInputStream\<close> can do: give a stream, give \<open>null\<close>, or throw
  a \<open>FileNotFoundException\<close> with a message.
\<close>

datatype open_result = Stream bytes | NullStream | OpenThrows string

text \<open>
  The host side of the Android adapter (the \<open>Context\<close> and the platform classes the
  plugin calls), one field per platform call. A URI and a file are named by their
  strings.
  \<^item> \<open>base64_decode\<close>: \<open>Base64.decode(data, Base64.DEFAULT)\<close>; \<open>None\<close> when it throws
    \<open>IllegalArgumentException\<close>.
  \<^item> \<open>uri_getScheme\<close>, \<open>uri_getPath\<close>: \<open>Uri.parse(path).getScheme()\<close> and \<open>.getPath()\<close>,
    \<open>None\<close> for \<open>null\<close>.
  \<^item> \<open>file_getPath\<close>: \<open>new File(p).getPath()\<close>, the normalised path.
  \<^item> \<open>documentFile_exists\<close>: \<open>DocumentFile.fromSingleUri(ctx, uri)\<close> is not
    \<open>null\<close> and \<open>exists()\<close>; \<open>documentFile_getType\<close>, \<open>documentFile_getName\<close>: its
    \<open>getType()\<close> and \<open>getName()\<close>.
  \<^item> \<open>openInputStream\<close>: \<open>getContentResolver().openInputStream(uri)\<close>.
  \<^item> \<open>decodeByteArray\<close>: \<open>BitmapFactory\<close> on the bytes; \<open>None\<close> for \<open>null\<close>.
  \<^item> \<open>printManager\<close>: whether \<open>getSystemService(Context.PRINT_SERVICE)\<close> is not \<open>null\<close>.
  \<^item> \<open>getCacheDir\<close>, \<open>getFilesDir\<close>: the two private directories of the application.
  \<^item> \<open>createTempFile_random\<close>: the random part \<open>File.createTempFile\<close> puts between
    prefix and suffix; \<open>None\<close> when it throws \<open>IOException\<close>.
  \<^item> \<open>webView_pageFinished\<close>: whether a \<open>WebView\<close> that is told to load this markup
    ever calls its client's \<open>onPageFinished\<close>.
  \<^item> \<open>defaultLocale\<close>: \<open>Locale.getDefault()\<close>, as far as it matters for ASCII letters;
    \<open>toLowerCase_nonAscii\<close>: \<open>String.toLowerCase()\<close> in that locale on a string that
    has a character outside ASCII.
\<close>

record Context =
  base64_decode :: "string \<Rightarrow> bytes option"
  uri_getScheme :: "string \<Rightarrow> string option"
  uri_getPath :: "string \<Rightarrow> string option"
  file_getPath :: "string \<Rightarrow> string"
  documentFile_exists :: "string \<Rightarrow> bool"
  documentFile_getType :: "string \<Rightarrow> string option"
  documentFile_getName :: "string \<Rightarrow> string option"
  openInputStream :: "string \<Rightarrow> open_result"
  decodeByteArray :: "bytes \<Rightarrow> bitmap option"
  printManager :: bool
  getCacheDir :: string
  getFilesDir :: string
  createTempFile_random :: "string option"
  webView_pageFinished :: "string \<Rightarrow> bool"
  defaultLocale :: Locale
  toLowerCase_nonAscii :: "string \<Rightarrow> string"

text \<open>
  The two document adapters of the plugin, each bound to its source: a file (by path) or
  a content URI.
\<close>

datatype document_adapter = PdfDocumentAdapter string | UriDocumentAdapter string

text \<open>The \<open>WebView\<close> that renders a markup string, or the caller's live one.\<close>

datatype webView = WebView string

text \<open>
  What the user gets to see. \<open>PrintBitmap\<close> is \<open>PrintHelper.printBitmap(name, bitmap)\<close>.
  \<open>PrintDocument\<close> and \<open>PrintWebView\<close> are the two kinds of
  \<open>printManager.print(name, adapter, attributes)\<close>: with an adapter of the plugin, or
  with the adapter \<open>webView.createPrintDocumentAdapter(name)\<close> gives.
\<close>

datatype ui_event =
    PrintBitmap string bitmap
  | PrintDocument string document_adapter
  | PrintWebView string webView

text \<open>
  The state the adapter changes: the files of the device (path to content), the print
  UI presented so far, and the \<open>WebView\<close>s that are loading markup with the print job's
  name captured in their \<open>WebViewClient\<close>.
\<close>

record state =
  files :: "string \<Rightarrow> bytes option"
  ui :: "ui_event list"
  webViews :: "(webView \<times> string) list"

type_synonym 'a result = "(exn + 'a) \<times> state"

section \<open>The Android adapter: MIME tables\<close>

text \<open>\<open>String.toLowerCase()\<close> on the device.\<close>

definition toLowerCase :: "Context \<Rightarrow> string \<Rightarrow> string" where
  "toLowerCase ctx s =
     (if list_all isAscii s then toLowerCase_ascii (defaultLocale ctx) s
      else toLowerCase_nonAscii ctx s)"

text \<open>\<open>Printer.getExtensionFromMimeType\<close>: the suffix of the temporary file.\<close>

definition getExtensionFromMimeType :: "Context \<Rightarrow> string \<Rightarrow> string" where
  "getExtensionFromMimeType ctx mimeType =
     (let m = toLowerCase ctx mimeType in
      if m = ''application/pdf'' then ''.pdf''
      else if m = ''image/jpeg'' \<or> m = ''image/jpg'' then ''.jpg''
      else if m = ''image/png'' then ''.png''
      else if m = ''image/gif'' then ''.gif''
      else ''.tmp'')"

text \<open>
  \<open>Printer.getMimeTypeFromPath\<close>: the text after the last dot (the whole path when it
  has no dot, since \<open>lastIndexOf\<close> is then \<open>-1\<close>), lower-cased, looked up in a switch.
\<close>

definition getMimeTypeFromPath :: "Context \<Rightarrow> string \<Rightarrow> string" where
  "getMimeTypeFromPath ctx path =
     (let extension = toLowerCase ctx (substring path (lastIndexOf path CHR ''.'' + 1)) in
      if extension = ''pdf'' then ''application/pdf''
      else if extension = ''jpg'' \<or> extension = ''jpeg'' then ''image/jpeg''
      else if extension = ''png'' then ''image/png''
      else if extension = ''gif'' then ''image/gif''
      else ''application/octet-stream'')"

text \<open>
  The lookup table as the specification words it: five extensions, written in lower
  case, and a fallback for every other extension.
\<close>

definition spec_mime_table :: "string \<Rightarrow> string" where
  "spec_mime_table ext =
     (if ext = ''pdf'' then ''application/pdf''
      else if ext = ''jpg'' then ''image/jpeg''
      else if ext = ''jpeg'' then ''image/jpeg''
      else if ext = ''png'' then ''image/png''
      else if ext = ''gif'' then ''image/gif''
      else ''application/octet-stream'')"

text \<open>The extension of a path: the text after its last dot, as written.\<close>

definition path_extension :: "string \<Rightarrow> string" where
  "path_extension path = substring path (lastIndexOf path CHR ''.'' + 1)"

section \<open>The Android adapter: operations\<close>

text \<open>\<open>File.getName()\<close>: the text after the last separator.\<close>

definition file_getName :: "string \<Rightarrow> string" where
  "file_getName file = substring file (lastIndexOf file CHR ''/'' + 1)"

text \<open>\<open>File.exists()\<close>.\<close>

definition file_exists :: "state \<Rightarrow> string \<Rightarrow> bool" where
  "file_exists s file = (files s file \<noteq> None)"

text \<open>\<open>BitmapFactory.decodeFile(path)\<close>: \<open>null\<close> when the file cannot be read or decoded.\<close>

definition decodeFile :: "Context \<Rightarrow> state \<Rightarrow> string \<Rightarrow> bitmap option" where
  "decodeFile ctx s file =
     (case files s file of None \<Rightarrow> None | Some bs \<Rightarrow> decodeByteArray ctx bs)"

text \<open>
  \<open>Context.openFileInput(name)\<close>: opens the file of that name in the application's
  files directory, or throws \<open>FileNotFoundException\<close>.
\<close>

definition openFileInput :: "Context \<Rightarrow> state \<Rightarrow> string \<Rightarrow> exn + bytes" where
  "openFileInput ctx s name =
     (case files s (getFilesDir ctx @ ''/'' @ name) of
        None \<Rightarrow> Inl (FileNotFoundException (getFilesDir ctx @ ''/'' @ name))
      | Some bs \<Rightarrow> Inr bs)"

definition printImage :: "bitmap \<Rightarrow> string \<Rightarrow> state \<Rightarrow> state" where
  "printImage bitmap name s = s\<lparr>ui := ui s @ [PrintBitmap name bitmap]\<rparr>"

definition printImageFromUri :: "Context \<Rightarrow> string \<Rightarrow> string \<Rightarrow> state \<Rightarrow> unit result" where
  "printImageFromUri ctx uri name s =
     (case openInputStream ctx uri of
        OpenThrows m \<Rightarrow> (Inl (Exception (''Failed to read image file: '' @ m)), s)
      | NullStream \<Rightarrow> (Inl (Exception ''Failed to open image file''), s)
      | Stream bs \<Rightarrow>
          (case decodeByteArray ctx bs of
             None \<Rightarrow> (Inl (Exception ''Failed to decode image''), s)
           | Some bitmap \<Rightarrow> (Inr (), printImage bitmap name s)))"

definition printDocument :: "Context \<Rightarrow> string \<Rightarrow> string \<Rightarrow> state \<Rightarrow> unit result" where
  "printDocument ctx file name s =
     (if \<not> printManager ctx then (Inl (Exception ''Print service not available''), s)
      else (Inr (), s\<lparr>ui := ui s @ [PrintDocument name (PdfDocumentAdapter file)]\<rparr>))"

definition printDocumentFromUri :: "Context \<Rightarrow> string \<Rightarrow> string \<Rightarrow> state \<Rightarrow> unit result" where
  "printDocumentFromUri ctx uri name s =
     (if \<not> printManager ctx then (Inl (Exception ''Print service not available''), s)
      else (Inr (), s\<lparr>ui := ui s @ [PrintDocument name (UriDocumentAdapter uri)]\<rparr>))"

definition createWebPrintJob :: "Context \<Rightarrow> webView \<Rightarrow> string \<Rightarrow> state \<Rightarrow> state" where
  "createWebPrintJob ctx view name s =
     (if \<not> printManager ctx then s
      else s\<lparr>ui := ui s @ [PrintWebView name view]\<rparr>)"

text \<open>
  \<open>Printer.saveTempFile\<close>: a new file \<open>print_temp<random><extension>\<close> in the cache
  directory, with the data written to it.
\<close>

definition saveTempFile :: "Context \<Rightarrow> bytes \<Rightarrow> string \<Rightarrow> state \<Rightarrow> string result" where
  "saveTempFile ctx data mimeType s =
     (let extension = getExtensionFromMimeType ctx mimeType in
      case createTempFile_random ctx of
        None \<Rightarrow> (Inl (IOException ''Unable to create temporary file''), s)
      | Some r \<Rightarrow>
          (let tempFile = getCacheDir ctx @ ''/'' @ ''print_temp'' @ r @ extension in
           (Inr tempFile, s\<lparr>files := (files s)(tempFile \<mapsto> data)\<rparr>)))"

definition printBase64 :: "Context \<Rightarrow> string \<Rightarrow> string \<Rightarrow> string \<Rightarrow> state \<Rightarrow> unit result" where
  "printBase64 ctx data mimeType name s =
     (case base64_decode ctx data of
        None \<Rightarrow> (Inl (IllegalArgumentException ''bad base-64''), s)
      | Some decodedData \<Rightarrow>
          if startsWith mimeType ''image/'' then
            (case decodeByteArray ctx decodedData of
               None \<Rightarrow> (Inl (Exception ''Failed to decode image from base64 data''), s)
             | Some bitmap \<Rightarrow> (Inr (), printImage bitmap name s))
          else
            (case saveTempFile ctx decodedData mimeType s of
               (Inl e, s') \<Rightarrow> (Inl e, s')
             | (Inr tempFile, s') \<Rightarrow> printDocument ctx tempFile name s'))"

text \<open>
  \<open>Printer.printFile\<close>; the MIME type is optional (\<open>None\<close> is Java's \<open>null\<close>).
  \<open>new File(null)\<close> throws \<open>NullPointerException\<close>.
\<close>

definition printFile ::
  "Context \<Rightarrow> string \<Rightarrow> string option \<Rightarrow> string \<Rightarrow> state \<Rightarrow> unit result" where
  "printFile ctx path mimeType name s =
     (if uri_getScheme ctx path = Some ''content'' then
        if \<not> documentFile_exists ctx path then
          (Inl (Exception (''File not found: '' @ path)), s)
        else
          (let mimeType' =
                 (case mimeType of None \<Rightarrow> documentFile_getType ctx path | Some m \<Rightarrow> Some m) in
           if (case mimeType' of None \<Rightarrow> False | Some m \<Rightarrow> startsWith m ''image/'') then
             printImageFromUri ctx path name s
           else printDocumentFromUri ctx path name s)
      else
        (case uri_getPath ctx path of
           None \<Rightarrow> (Inl NullPointerException, s)
         | Some p \<Rightarrow>
             (let file = file_getPath ctx p in
              if \<not> file_exists s file then
                (Inl (Exception (''File not found: '' @ path)), s)
              else
                (let mimeType' =
                       (case mimeType of None \<Rightarrow> Some (getMimeTypeFromPath ctx file)
                        | Some m \<Rightarrow> Some m) in
                 if (case mimeType' of None \<Rightarrow> False | Some m \<Rightarrow> startsWith m ''image/'') then
                   (case decodeFile ctx s file of
                      None \<Rightarrow> (Inl (Exception ''Failed to decode image from file''), s)
                    | Some bitmap \<Rightarrow> (Inr (), printImage bitmap name s))
                 else printDocument ctx file name s))))"

text \<open>
  \<open>Printer.printHtml\<close>: a new \<open>WebView\<close> gets a client whose \<open>onPageFinished\<close> starts the
  print job, and is told to load the markup. The method then returns.
\<close>

definition printHtml :: "Context \<Rightarrow> string \<Rightarrow> string \<Rightarrow> state \<Rightarrow> unit result" where
  "printHtml ctx html name s = (Inr (), s\<lparr>webViews := webViews s @ [(WebView html, name)]\<rparr>)"

text \<open>The client's \<open>onPageFinished(view, url)\<close>, which the platform calls later.\<close>

definition onPageFinished :: "Context \<Rightarrow> webView \<Rightarrow> string \<Rightarrow> state \<Rightarrow> state" where
  "onPageFinished ctx view name s = createWebPrintJob ctx view name s"

text \<open>
  \<open>printHtml\<close> together with what the \<open>WebView\<close> does afterwards: the outcome is the
  one \<open>printHtml\<close> returned; the state is the one after the callback, if it comes.
\<close>

definition printHtml_then_load :: "Context \<Rightarrow> string \<Rightarrow> string \<Rightarrow> state \<Rightarrow> unit result" where
  "printHtml_then_load ctx html name s =
     (case printHtml ctx html name s of
        (r, s1) \<Rightarrow>
          (r, if webView_pageFinished ctx html
              then onPageFinished ctx (WebView html) name s1 else s1))"

definition printPdf :: "Context \<Rightarrow> string \<Rightarrow> string \<Rightarrow> state \<Rightarrow> unit result" where
  "printPdf ctx path name s =
     (if uri_getScheme ctx path = Some ''content'' then printDocumentFromUri ctx path name s
      else
        (case uri_getPath ctx path of
           None \<Rightarrow> (Inl NullPointerException, s)
         | Some p \<Rightarrow>
             (let file = file_getPath ctx p in
              if \<not> file_exists s file then
                (Inl (Exception (''File not found: '' @ path)), s)
              else printDocument ctx file name s)))"

definition printWebView :: "Context \<Rightarrow> webView option \<Rightarrow> string \<Rightarrow> state \<Rightarrow> unit result" where
  "printWebView ctx webView name s =
     (case webView of
        None \<Rightarrow> (Inl (Exception ''WebView not available''), s)
      | Some view \<Rightarrow> (Inr (), createWebPrintJob ctx view name s))"


section \<open>The Android adapter: the document adapters\<close>

text \<open>
  The print framework calls \<open>onLayout\<close> with a cancellation signal and a callback; the
  adapter answers through the callback. The answer is the value of the model.
\<close>

datatype layout_result = LayoutCancelled | LayoutFinished string bool

datatype write_result = WriteFinished | WriteFailed string

definition PdfDocumentAdapter_onLayout :: "string \<Rightarrow> bool \<Rightarrow> layout_result" where
  "PdfDocumentAdapter_onLayout file isCanceled =
     (if isCanceled then LayoutCancelled
      else LayoutFinished (file_getName file) True)"

definition UriDocumentAdapter_onLayout :: "Context \<Rightarrow> string \<Rightarrow> bool \<Rightarrow> layout_result" where
  "UriDocumentAdapter_onLayout ctx uri isCanceled =
     (if isCanceled then LayoutCancelled
      else LayoutFinished
             (case documentFile_getName ctx uri of None \<Rightarrow> ''Document'' | Some n \<Rightarrow> n) True)"

text \<open>
  \<open>InputStream.read(buf)\<close> on a 1024-byte buffer: the number of bytes read (\<open>-1\<close> at the
  end of the stream), the bytes, and the rest of the stream.
\<close>

definition input_read :: "bytes \<Rightarrow> int \<times> bytes \<times> bytes" where
  "input_read input =
     (if input = [] then (- 1, [], [])
      else (int (length (take 1024 input)), take 1024 input, drop 1024 input))"

text \<open>
  The copy loop of both \<open>onWrite\<close> methods:
  \<open>while ((bytesRead = input.read(buf)) > 0) output.write(buf, 0, bytesRead)\<close>.
\<close>

function copy_loop :: "bytes \<Rightarrow> bytes \<Rightarrow> bytes" where
  "copy_loop input output =
     (case input_read input of
        (bytesRead, buf, rest) \<Rightarrow>
          if 0 < bytesRead then copy_loop rest (output @ take (nat bytesRead) buf)
          else output)"
  by pat_completeness auto
termination
  by (relation "measure (\<lambda>(input, output). length input)")
     (auto simp: input_read_def split: if_splits)

declare copy_loop.simps [simp del]

text \<open>
  \<open>PdfDocumentAdapter.onWrite\<close>: the input is \<open>context.openFileInput(file.getName())\<close>;
  any exception becomes \<open>onWriteFailed\<close>. The second component is the content of the
  destination the framework supplied.
\<close>

definition PdfDocumentAdapter_onWrite ::
  "Context \<Rightarrow> string \<Rightarrow> state \<Rightarrow> bytes \<Rightarrow> write_result \<times> bytes" where
  "PdfDocumentAdapter_onWrite ctx file s destination =
     (case openFileInput ctx s (file_getName file) of
        Inl e \<Rightarrow> (WriteFailed (getMessage e), destination)
      | Inr input \<Rightarrow> (WriteFinished, copy_loop input destination))"

definition UriDocumentAdapter_onWrite ::
  "Context \<Rightarrow> string \<Rightarrow> bytes \<Rightarrow> write_result \<times> bytes" where
  "UriDocumentAdapter_onWrite ctx uri destination =
     (case openInputStream ctx uri of
        OpenThrows m \<Rightarrow> (WriteFailed m, destination)
      | NullStream \<Rightarrow> (WriteFailed ''Failed to open file'', destination)
      | Stream input \<Rightarrow> (WriteFinished, copy_loop input destination))"

fun onLayout :: "Context \<Rightarrow> document_adapter \<Rightarrow> bool \<Rightarrow> layout_result" where
  "onLayout ctx (PdfDocumentAdapter file) isCanceled = PdfDocumentAdapter_onLayout file isCanceled"
| "onLayout ctx (UriDocumentAdapter uri) isCanceled = UriDocumentAdapter_onLayout ctx uri isCanceled"

fun onWrite :: "Context \<Rightarrow> document_adapter \<Rightarrow> state \<Rightarrow> bytes \<Rightarrow> write_result \<times> bytes" where
  "onWrite ctx (PdfDocumentAdapter file) s destination = PdfDocumentAdapter_onWrite ctx file s destination"
| "onWrite ctx (UriDocumentAdapter uri) s destination = UriDocumentAdapter_onWrite ctx uri destination"

text \<open>
  The states of a print job as the specification names them, and one layout pass of the
  print framework over an adapter: it asks for the layout, and asks for the content only
  after the adapter has reported a finished layout.
\<close>

datatype job_state = Created | LayingOut | Ready | Writing | Finished | Failed | Cancelled

definition layout_pass ::
  "Context \<Rightarrow> document_adapter \<Rightarrow> bool \<Rightarrow> state \<Rightarrow> bytes \<Rightarrow> job_state \<times> bytes" where
  "layout_pass ctx adapter isCanceled s destination =
     (case onLayout ctx adapter isCanceled of
        LayoutCancelled \<Rightarrow> (Cancelled, destination)
      | LayoutFinished info changed \<Rightarrow>
          (case onWrite ctx adapter s destination of
             (WriteFinished, out) \<Rightarrow> (Finished, out)
           | (WriteFailed m, out) \<Rightarrow> (Failed, out)))"

text \<open>
  When the framework sets the cancellation signal, relative to one call of \<open>onLayout\<close>:
  not at all, before the call tests the signal, or after that test and before the call
  has answered. \<open>isCanceled\<close> is what \<open>cancellationSignal.isCanceled()\<close> gives at the test,
  which is the first statement of both \<open>onLayout\<close> methods and their only look at the
  signal.
\<close>

datatype cancellation = NotCancelled | CancelledBeforeLayout | CancelledDuringLayout

definition isCanceled :: "cancellation \<Rightarrow> bool" where
  "isCanceled c = (c = CancelledBeforeLayout)"

section \<open>The iOS adapter\<close>

datatype PrinterError =
    invalidBase64Data
  | fileNotFound
  | unsupportedMimeType
  | printingNotAvailable
  | invalidData

datatype uiImage = UIImage bytes

datatype outputType = general | photo

datatype printItem = DataItem bytes | ImageItem uiImage | UrlItem string

datatype printFormatter = MarkupTextPrintFormatter string | ViewPrintFormatter





section \<open>The browser adapter\<close>

text \<open>
  An \<open>async\<close> method ends in a promise that is resolved, rejected with an error, or
  never settled. The errors are the one \<open>atob\<close> throws, the ones the plugin makes with
  \<open>new Error(message)\<close>, and whatever \<open>print()\<close> of an \<open>iframe\<close> window throws.
\<close>

datatype js_error = InvalidCharacterError | Error string | PrintException string

datatype 'a promise = Resolved 'a | Rejected js_error | Pending

text \<open>
  What a hidden \<open>iframe\<close> does once its \<open>src\<close> is set: it fires \<open>onload\<close> (and then
  has or has not a \<open>contentDocument\<close> and a \<open>contentWindow\<close>, and its \<open>print()\<close> returns
  or throws), it fires \<open>onerror\<close>, or it fires nothing.
\<close>

datatype load_event = OnLoad bool bool "string option" | OnError | NoEvent

datatype blob = Blob bytes string

text \<open>
  A \<open>Blob\<close> is its bytes and its type. The constructor lower-cases the type it is given
  when all its characters are printable ASCII, and takes the empty type otherwise; the
  text of a string part is stored as its UTF-8 bytes.
\<close>

definition blob_type :: "string \<Rightarrow> string" where
  "blob_type t =
     (if list_all (\<lambda>c. 32 \<le> (of_char c :: nat) \<and> (of_char c :: nat) \<le> 126) t
      then map toLowerCase_char t else [])"

definition utf8_bytes :: "string \<Rightarrow> bytes" where
  "utf8_bytes s = map (\<lambda>c. of_nat (of_char c)) s"

text \<open>
  The host side of the browser adapter: the event each URL leads to, and the
  identifiers \<open>URL.createObjectURL\<close> hands out.
\<close>

record browser =
  load :: "string \<Rightarrow> load_event"
  uuid :: "nat \<Rightarrow> string"

text \<open>
  The page: the \<open>iframe\<close>s under \<open>document.body\<close> (numbered, with their \<open>src\<close>), how
  many were created, the live object URLs, how many were created, the titles given to
  \<open>iframe\<close> documents, the \<open>src\<close> of every \<open>iframe\<close> whose window printed, the title of
  the page, and the page titles under which \<open>window.print()\<close> ran.
\<close>

record page =
  body :: "(nat \<times> string) list"
  iframesCreated :: nat
  objectURLs :: "(string \<times> blob) list"
  urlsCreated :: nat
  iframeTitles :: "(nat \<times> string) list"
  iframePrints :: "string list"
  title :: string
  windowPrints :: "string list"

definition removeChild :: "nat \<Rightarrow> page \<Rightarrow> page" where
  "removeChild i s = s\<lparr>body := filter (\<lambda>(j, src). j \<noteq> i) (body s)\<rparr>"

definition createObjectURL :: "browser \<Rightarrow> blob \<Rightarrow> page \<Rightarrow> string \<times> page" where
  "createObjectURL env b s =
     (let url = ''blob:'' @ uuid env (urlsCreated s) in
      (url, s\<lparr>objectURLs := objectURLs s @ [(url, b)], urlsCreated := Suc (urlsCreated s)\<rparr>))"

definition revokeObjectURL :: "string \<Rightarrow> page \<Rightarrow> page" where
  "revokeObjectURL url s = s\<lparr>objectURLs := filter (\<lambda>(u, b). u \<noteq> url) (objectURLs s)\<rparr>"

text \<open>
  \<open>PrinterWeb.printFromUrl\<close>. The two timers only delay; the model runs their bodies in
  order.
\<close>

definition printFromUrl :: "browser \<Rightarrow> string \<Rightarrow> string option \<Rightarrow> page \<Rightarrow> unit promise \<times> page" where
  "printFromUrl env url name s =
     (let i = iframesCreated s;
          s1 = s\<lparr>body := body s @ [(i, url)], iframesCreated := Suc i\<rparr> in
      case load env url of
        NoEvent \<Rightarrow> (Pending, s1)
      | OnError \<Rightarrow> (Rejected (Error ''Failed to load content for printing''), removeChild i s1)
      | OnLoad hasDocument hasWindow printThrows \<Rightarrow>
          (let s2 = (case name of
                       None \<Rightarrow> s1
                     | Some n \<Rightarrow>
                         if n \<noteq> [] \<and> hasDocument
                         then s1\<lparr>iframeTitles := iframeTitles s1 @ [(i, n)]\<rparr> else s1) in
           if \<not> hasWindow then (Rejected (Error ''Cannot access iframe window''), removeChild i s2)
           else
             (case printThrows of
                Some m \<Rightarrow> (Rejected (PrintException m), removeChild i s2)
              | None \<Rightarrow>
                  (Resolved (), removeChild i (s2\<lparr>iframePrints := iframePrints s2 @ [url]\<rparr>)))))"

text \<open>\<open>charCodeAt\<close> of a character of a binary string, stored in a \<open>Uint8Array\<close>.\<close>

definition charCodeAt :: "char \<Rightarrow> byte" where
  "charCodeAt c = of_nat (of_char c)"

text \<open>
  \<open>PrinterWeb.printBase64\<close>: \<open>await\<close> passes a rejection on, so the line after it runs
  only when \<open>printFromUrl\<close> resolved.
\<close>

definition web_printBase64 ::
  "browser \<Rightarrow> string \<Rightarrow> string \<Rightarrow> string option \<Rightarrow> page \<Rightarrow> unit promise \<times> page" where
  "web_printBase64 env data mimeType name s =
     (case atob data of
        None \<Rightarrow> (Rejected InvalidCharacterError, s)
      | Some byteCharacters \<Rightarrow>
          (let byteArray = map charCodeAt byteCharacters in
           case createObjectURL env (Blob byteArray (blob_type mimeType)) s of
             (url, s1) \<Rightarrow>
               (case printFromUrl env url name s1 of
                  (Resolved u, s2) \<Rightarrow> (Resolved (), revokeObjectURL url s2)
                | (Rejected m, s2) \<Rightarrow> (Rejected m, s2)
                | (Pending, s2) \<Rightarrow> (Pending, s2))))"

definition web_printFile :: "browser \<Rightarrow> string \<Rightarrow> string option \<Rightarrow> page \<Rightarrow> unit promise \<times> page" where
  "web_printFile env path name s = printFromUrl env path name s"

definition web_printHtml :: "browser \<Rightarrow> string \<Rightarrow> string option \<Rightarrow> page \<Rightarrow> unit promise \<times> page" where
  "web_printHtml env html name s =
     (case createObjectURL env (Blob (utf8_bytes html) (blob_type ''text/html'')) s of
        (url, s1) \<Rightarrow>
          (case printFromUrl env url name s1 of
             (Resolved u, s2) \<Rightarrow> (Resolved (), revokeObjectURL url s2)
           | (Rejected m, s2) \<Rightarrow> (Rejected m, s2)
           | (Pending, s2) \<Rightarrow> (Pending, s2)))"

definition web_printPdf :: "browser \<Rightarrow> string \<Rightarrow> string option \<Rightarrow> page \<Rightarrow> unit promise \<times> page" where
  "web_printPdf env path name s = printFromUrl env path name s"

definition web_printWebView :: "string option \<Rightarrow> page \<Rightarrow> unit promise \<times> page" where
  "web_printWebView name s =
     (let originalTitle = title s;
          s1 = (case name of
                  None \<Rightarrow> s
                | Some n \<Rightarrow> if n \<noteq> [] then s\<lparr>title := n\<rparr> else s);
          s2 = s1\<lparr>windowPrints := windowPrints s1 @ [title s1]\<rparr> in
      (Resolved (), s2\<lparr>title := originalTitle\<rparr>))"

record version_info =
  version :: string

definition getPluginVersion :: "page \<Rightarrow> version_info promise \<times> page" where
  "getPluginVersion s = (Resolved \<lparr>version = ''7.0.0''\<rparr>, s)"

text \<open>The calls an application can make in a session, and the page after each.\<close>

datatype web_call =
    CallPrintBase64 string string "string option"
  | CallPrintFile string "string option"
  | CallPrintHtml string "string option"
  | CallPrintPdf string "string option"
  | CallPrintWebView "string option"
  | CallGetPluginVersion

fun perform :: "browser \<Rightarrow> page \<Rightarrow> web_call \<Rightarrow> page" where
  "perform env s (CallPrintBase64 data mimeType name) = snd (web_printBase64 env data mimeType name s)"
| "perform env s (CallPrintFile path name) = snd (web_printFile env path name s)"
| "perform env s (CallPrintHtml html name) = snd (web_printHtml env html name s)"
| "perform env s (CallPrintPdf path name) = snd (web_printPdf env path name s)"
| "perform env s (CallPrintWebView name) = snd (web_printWebView name s)"
| "perform env s CallGetPluginVersion = snd (getPluginVersion s)"

definition session :: "browser \<Rightarrow> web_call list \<Rightarrow> page \<Rightarrow> page" where
  "session env calls s = foldl (perform env) s calls"

section \<open>Sample hosts\<close>

text \<open>
  A device with one content document, a print service, an image decoder that takes
  what starts with the first byte of a PNG signature, and a \<open>WebView\<close> that never
  finishes one particular markup; the same device without a print service, and with a
  Turkish default locale; an iPhone; a browser where the second object URL and one
  address fail to load.
\<close>

definition sample_getScheme :: "string \<Rightarrow> string option" where
  "sample_getScheme p =
     (if CHR '':'' \<in> set p then Some (takeWhile (\<lambda>c. c \<noteq> CHR '':'') p) else None)"

definition sample_getPath :: "string \<Rightarrow> string option" where
  "sample_getPath p =
     (if startsWith p ''file://'' then Some (drop 7 p)
      else if CHR '':'' \<in> set p then None else Some p)"

definition sample_decodeByteArray :: "bytes \<Rightarrow> bitmap option" where
  "sample_decodeByteArray bs =
     (case bs of [] \<Rightarrow> None | b # rest \<Rightarrow> if b = 137 then Some (Bitmap bs) else None)"

definition device :: Context where
  "device =
     \<lparr>base64_decode = b64_decode,
      uri_getScheme = sample_getScheme,
      uri_getPath = sample_getPath,
      file_getPath = (\<lambda>p. p),
      documentFile_exists = (\<lambda>u. u = ''content://media/document/1''),
      documentFile_getType =
        (\<lambda>u. if u = ''content://media/document/1'' then Some ''application/pdf'' else None),
      documentFile_getName =
        (\<lambda>u. if u = ''content://media/document/1'' then Some ''report.pdf'' else None),
      openInputStream =
        (\<lambda>u. if u = ''content://media/document/1'' then Stream [37, 80, 68, 70]
             else OpenThrows ''No content provider''),
      decodeByteArray = sample_decodeByteArray,
      printManager = True,
      getCacheDir = ''/data/user/0/app/cache'',
      getFilesDir = ''/data/user/0/app/files'',
      createTempFile_random = Some ''4711'',
      webView_pageFinished = (\<lambda>html. html \<noteq> ''<unrenderable>''),
      defaultLocale = OtherLocale,
      toLowerCase_nonAscii = (\<lambda>s. s)\<rparr>"

definition turkish_device :: Context where
  "turkish_device = device\<lparr>defaultLocale := Turkic\<rparr>"

definition device_without_print_service :: Context where
  "device_without_print_service = device\<lparr>printManager := False\<rparr>"

definition no_files :: state where
  "no_files = \<lparr>files = (\<lambda>p. None), ui = [], webViews = []\<rparr>"

text \<open>A state with a picture and a document on the card.\<close>

definition sdcard :: state where
  "sdcard =
     \<lparr>files = (\<lambda>p. if p = ''/sdcard/a.PNG'' then Some [137, 80]
                   else if p = ''/sdcard/Scan.PDF'' then Some [37, 80, 68, 70] else None),
      ui = [], webViews = []\<rparr>"


definition sample_browser :: browser where
  "sample_browser =
     \<lparr>load = (\<lambda>u. if u = ''blob:aa'' \<or> u = ''https://example.org/missing.pdf''
                then OnError else OnLoad True True None),
      uuid = (\<lambda>n. replicate (Suc n) CHR ''a'')\<rparr>"

definition blank_page :: page where
  "blank_page =
     \<lparr>body = [], iframesCreated = 0, objectURLs = [], urlsCreated = 0,
      iframeTitles = [], iframePrints = [], title = ''App'', windowPrints = []\<rparr>"


section \<open>String lemmas\<close>

lemmas char_eval = lowercased_def toLowerCase_def toLowerCase_ascii_def toLowerCase_char_def
  isAscii_def char_of_def bit_Suc_0_iff

lemmas b64_eval = b64_value_def group_bytes_def

lemma lastIndexOf_absent: "c \<notin> set s \<Longrightarrow> lastIndexOf s c = - 1"
  by (induction s) (auto simp: Let_def)

lemma lastIndexOf_last:
  "c \<notin> set e \<Longrightarrow> lastIndexOf (b @ c # e) c = int (length b)"
  by (induction b) (auto simp: Let_def lastIndexOf_absent)

lemma path_extension_after_dot:
  "CHR ''.'' \<notin> set e \<Longrightarrow> path_extension (b @ CHR ''.'' # e) = e"
proof -
  assume "CHR ''.'' \<notin> set e"
  then have "lastIndexOf (b @ CHR ''.'' # e) CHR ''.'' + 1 = int (Suc (length b))"
    by (simp add: lastIndexOf_last)
  then show ?thesis
    by (simp add: path_extension_def substring_def del: of_nat_Suc)
qed

lemma path_extension_no_dot:
  "CHR ''.'' \<notin> set p \<Longrightarrow> path_extension p = p"
  by (simp add: path_extension_def substring_def lastIndexOf_absent)


text \<open>Lower-casing on a device whose locale is neither Turkish nor Azeri.\<close>

lemma toLowerCase_ascii_other: "toLowerCase_ascii OtherLocale s = map toLowerCase_char s"
  by (induction s) (simp_all add: toLowerCase_ascii_def)

lemma toLowerCase_other:
  "defaultLocale ctx = OtherLocale \<Longrightarrow> list_all isAscii s \<Longrightarrow>
     toLowerCase ctx s = map toLowerCase_char s"
  by (simp add: toLowerCase_def toLowerCase_ascii_other)

lemma toLowerCase_pdf: "toLowerCase ctx ''application/pdf'' = ''application/pdf''"
  by (simp add: char_eval)

lemma getExtension_pdf: "getExtensionFromMimeType ctx ''application/pdf'' = ''.pdf''"
  by (simp add: getExtensionFromMimeType_def toLowerCase_pdf)

lemma getMimeTypeFromPath_table:
  "defaultLocale ctx = OtherLocale \<Longrightarrow> list_all isAscii (path_extension path) \<Longrightarrow>
     getMimeTypeFromPath ctx path = spec_mime_table (map toLowerCase_char (path_extension path))"
  using toLowerCase_other [of ctx "path_extension path"]
  by (simp add: getMimeTypeFromPath_def spec_mime_table_def path_extension_def Let_def)

section \<open>Base64: decoding what was encoded\<close>

lemma group_split:
  fixes n :: nat
  shows "n div 262144 * 262144 + n div 4096 mod 64 * 4096 + n div 64 mod 64 * 64 + n mod 64 = n"
proof -
  have 1: "n div 64 mod 64 * 64 + n mod 64 = n mod 4096"
    using mod_mult2_eq [of n 64 64] by simp
  have 2: "n div 4096 mod 64 * 4096 + n mod 4096 = n mod 262144"
    using mod_mult2_eq [of n 4096 64] by simp
  have 3: "n div 262144 * 262144 + n mod 262144 = n"
    by simp
  show ?thesis using 1 2 3 by linarith
qed

lemma bytes3_hi: "b < 256 \<Longrightarrow> c < 256 \<Longrightarrow> (a * 65536 + b * 256 + c) div 65536 = (a::nat)"
  by (simp add: div_eq_0_iff)

lemma bytes3_mid: "b < 256 \<Longrightarrow> c < 256 \<Longrightarrow> (a * 65536 + b * 256 + c) div 256 mod 256 = (b::nat)"
proof -
  assume b: "b < 256" and c: "c < 256"
  have "a * 65536 + b * 256 + c = (a * 256 + b) * 256 + c" by simp
  then have "(a * 65536 + b * 256 + c) div 256 = a * 256 + b"
    using c by simp
  then show ?thesis using b by simp
qed

lemma bytes3_lo: "c < 256 \<Longrightarrow> (a * 65536 + b * 256 + c) mod 256 = (c::nat)"
proof -
  assume c: "c < 256"
  have "a * 65536 + b * 256 + c = c + (a * 256 + b) * 256" by simp
  then have "(a * 65536 + b * 256 + c) mod 256 = c mod 256"
    using mod_mult_self1 [of c "a * 256 + b" 256] by (simp only:)
  then show ?thesis using c by simp
qed

lemma byte_less: "unat (a::8 word) < 256"
  using unsigned_less [of a] by simp


lemma b64_value_char: "v < 64 \<Longrightarrow> b64_value (b64_char v) = Some v"
  by (auto simp: b64_value_def b64_char_def Let_def)

lemma b64_value_pad: "b64_value CHR ''='' = None"
  by (simp add: b64_value_def)

lemma b64_char_not_pad: "v < 64 \<Longrightarrow> b64_char v \<noteq> CHR ''=''"
  using b64_value_char [of v] b64_value_pad by auto

lemma b64_values_group:
  assumes "n < 16777216"
  shows "b64_values (group_chars n) = Some n"
proof -
  have "n div 262144 < 64" using assms by simp
  then show ?thesis
    using group_split [of n]
    by (simp add: group_chars_def b64_value_char)
qed

lemma group_bytes_unat:
  "group_bytes (unat a * 65536 + unat b * 256 + unat c) = [a, b, c]"
  by (simp add: group_bytes_def bytes3_hi bytes3_mid bytes3_lo byte_less)

lemma group_bound:
  "unat (a::byte) * 65536 + unat (b::byte) * 256 + unat (c::byte) < 16777216"
  using byte_less [of a] byte_less [of b] byte_less [of c] by linarith

lemma b64_decode_group:
  assumes "n < 16777216"
  shows "b64_decode (group_chars n @ cs) =
           (case b64_decode cs of None \<Rightarrow> None | Some bs \<Rightarrow> Some (group_bytes n @ bs))"
proof (cases cs)
  case Nil
  have v: "b64_values [b64_char (n div 262144), b64_char (n div 4096 mod 64),
      b64_char (n div 64 mod 64), b64_char (n mod 64)] = Some n"
    using b64_values_group [OF assms] by (simp only: group_chars_def)
  have "b64_char (n div 64 mod 64) \<noteq> CHR ''=''" "b64_char (n mod 64) \<noteq> CHR ''=''"
    by (simp_all add: b64_char_not_pad)
  then show ?thesis using Nil v
    by (simp add: group_chars_def del: b64_values.simps)
next
  case (Cons x xs)
  have v: "b64_values [b64_char (n div 262144), b64_char (n div 4096 mod 64),
      b64_char (n div 64 mod 64), b64_char (n mod 64)] = Some n"
    using b64_values_group [OF assms] by (simp only: group_chars_def)
  show ?thesis using Cons v
    by (simp add: group_chars_def del: b64_values.simps split: option.splits)
qed

lemma sextet_join2: "(r::nat) div 64 * 4096 + r mod 64 * 64 = r * 64"
proof -
  have "(r div 64 * 64 + r mod 64) * 64 = r * 64" by (simp only: div_mult_mod_eq)
  then have "r div 64 * 64 * 64 + r mod 64 * 64 = r * 64" by (simp only: add_mult_distrib)
  then show ?thesis by (simp only: mult.assoc) 
qed
lemma sextet_join3:
  "(q::nat) div 64 div 64 * 4096 + (q div 64 mod 64 * 64 + q mod 64) = q"
proof -
  have "q div 64 div 64 * 4096 + q div 64 mod 64 * 64 = q div 64 * 64"
    by (rule sextet_join2)
  moreover have "q div 64 * 64 + q mod 64 = q" by simp
  ultimately show ?thesis by linarith
qed

lemma b64_values_take2:
  assumes "n < 16777216"
  shows "b64_values (take 2 (group_chars n)) = Some (n div 4096)"
proof -
  have "n div 262144 < 64" using assms by simp
  moreover have "n div 262144 = n div 4096 div 64"
    by (simp add: div_mult2_eq)
  ultimately show ?thesis
    by (simp add: group_chars_def b64_value_char)
qed

lemma b64_values_take3:
  assumes "n < 16777216"
  shows "b64_values (take 3 (group_chars n)) = Some (n div 64)"
proof -
  have "n div 262144 < 64" using assms by simp
  moreover have "n div 262144 = n div 64 div 64 div 64" "n div 4096 = n div 64 div 64"
    by (simp_all add: div_mult2_eq)
  ultimately show ?thesis
    by (simp add: group_chars_def b64_value_char sextet_join3)
qed

lemma b64_decode_pad2:
  assumes "n < 16777216"
  shows "b64_decode (take 2 (group_chars n) @ ''=='') =
           Some (take 1 (group_bytes (n div 4096 * 4096)))"
proof -
  have "b64_values [b64_char (n div 262144), b64_char (n div 4096 mod 64)] = Some (n div 4096)"
    using b64_values_take2 [OF assms] by (simp add: group_chars_def)
  then show ?thesis
    by (simp add: group_chars_def del: b64_values.simps)
qed

lemma b64_decode_pad1:
  assumes "n < 16777216"
  shows "b64_decode (take 3 (group_chars n) @ ''='') =
           Some (take 2 (group_bytes (n div 64 * 64)))"
proof -
  have "b64_values [b64_char (n div 262144), b64_char (n div 4096 mod 64),
      b64_char (n div 64 mod 64)] = Some (n div 64)"
    using b64_values_take3 [OF assms] by (simp add: group_chars_def)
  moreover have "b64_char (n div 64 mod 64) \<noteq> CHR ''=''"
    by (simp add: b64_char_not_pad)
  ultimately show ?thesis
    by (simp add: group_chars_def del: b64_values.simps)
qed

lemma b64_decode_one: "b64_decode (b64_encode [a]) = Some [a]"
proof -
  define n where "n = unat a * 65536"
  have n: "n < 16777216" using group_bound [of a 0 0] by (simp add: n_def)
  have whole: "n div 4096 * 4096 = n" by (simp add: n_def)
  have g: "group_bytes n = [a, 0, 0]"
    using group_bytes_unat [of a 0 0] by (simp add: n_def)
  have "b64_decode (b64_encode [a]) = b64_decode (take 2 (group_chars n) @ ''=='')"
    by (simp add: n_def)
  also have "\<dots> = Some (take 1 (group_bytes (n div 4096 * 4096)))"
    by (rule b64_decode_pad2 [OF n])
  also have "\<dots> = Some [a]"
    by (simp add: whole g)
  finally show ?thesis .
qed

lemma b64_decode_two: "b64_decode (b64_encode [a, b]) = Some [a, b]"
proof -
  define n where "n = unat a * 65536 + unat b * 256"
  have n: "n < 16777216" using group_bound [of a b 0] by (simp add: n_def)
  have whole: "n div 64 * 64 = n" by (simp add: n_def)
  have g: "group_bytes n = [a, b, 0]"
    using group_bytes_unat [of a b 0] by (simp add: n_def)
  have "b64_decode (b64_encode [a, b]) = b64_decode (take 3 (group_chars n) @ ''='')"
    by (simp add: n_def)
  also have "\<dots> = Some (take 2 (group_bytes (n div 64 * 64)))"
    by (rule b64_decode_pad1 [OF n])
  also have "\<dots> = Some [a, b]"
    by (simp add: whole g)
  finally show ?thesis .
qed

lemma b64_decode_encode: "b64_decode (b64_encode bs) = Some bs"
proof (induction bs rule: b64_encode.induct)
  case 1
  show ?case by simp
next
  case (2 a)
  show ?case by (rule b64_decode_one)
next
  case (3 a b)
  show ?case by (rule b64_decode_two)
next
  case (4 a b c rest)
  show ?case
    using 4 b64_decode_group [OF group_bound [of a b c], of "b64_encode rest"]
      group_bytes_unat [of a b c]
    by simp
qed


lemma b64_encode_sample: "b64_encode [1, 2, 3] = ''AQID''"
  by (simp add: group_chars_def b64_char_def char_of_def bit_Suc_0_iff)

lemma b64_decode_sample: "b64_decode ''AQID'' = Some [1, 2, 3]"
  by (simp add: b64_eval)


text \<open>\<open>atob\<close> accepts every valid payload and gives the bytes that were encoded.\<close>

lemma forgiving_decode_strict: "b64_decode s = Some bs \<Longrightarrow> forgiving_decode s = Some bs"
proof (induction s arbitrary: bs rule: b64_decode.induct)
  case 1
  then show ?case by simp
next
  case (2 c0 c1 c2 c3)
  then show ?case by (simp del: b64_values.simps)
next
  case (3 c0 c1 c2 c3 v va)
  then show ?case
    by (auto simp del: b64_values.simps split: option.splits)
qed simp_all

lemma whitespace_no_value: "is_ascii_whitespace c \<Longrightarrow> b64_value c = None"
  by (auto simp: is_ascii_whitespace_def b64_value_def Let_def)

lemma b64_char_not_whitespace: "v < 64 \<Longrightarrow> \<not> is_ascii_whitespace (b64_char v)"
  using whitespace_no_value [of "b64_char v"] b64_value_char [of v] by auto

lemma pad_not_whitespace: "\<not> is_ascii_whitespace CHR ''=''"
  by (simp add: is_ascii_whitespace_def)

lemma group_chars_no_whitespace:
  "n < 16777216 \<Longrightarrow> filter (\<lambda>c. \<not> is_ascii_whitespace c) (group_chars n) = group_chars n"
  by (simp add: group_chars_def b64_char_not_whitespace)

lemma b64_encode_no_whitespace:
  "filter (\<lambda>c. \<not> is_ascii_whitespace c) (b64_encode bs) = b64_encode bs"
proof (induction bs rule: b64_encode.induct)
  case 1
  show ?case by simp
next
  case (2 a)
  have "unat a * 65536 div 262144 < 64" using byte_less [of a] by simp
  then show ?case
    by (simp add: group_chars_def b64_char_not_whitespace pad_not_whitespace)
next
  case (3 a b)
  have "(unat a * 65536 + unat b * 256) div 262144 < 64"
    using group_bound [of a b 0] by simp
  then show ?case
    by (simp add: group_chars_def b64_char_not_whitespace pad_not_whitespace)
next
  case (4 a b c rest)
  then show ?case
    using group_chars_no_whitespace [OF group_bound [of a b c]] by simp
qed

lemma atob_encode: "atob (b64_encode bs) = Some (map fromCharCode bs)"
  by (simp add: atob_def b64_encode_no_whitespace forgiving_decode_strict [OF b64_decode_encode])

lemma b64_values_no_whitespace:
  "b64_values cs = Some n \<Longrightarrow> filter (\<lambda>c. \<not> is_ascii_whitespace c) cs = cs"
proof (induction cs arbitrary: n)
  case Nil
  show ?case by simp
next
  case (Cons c cs)
  then obtain v m where v: "b64_value c = Some v" and m: "b64_values cs = Some m"
    by (auto split: option.splits)
  have "\<not> is_ascii_whitespace c" using v whitespace_no_value [of c] by auto
  then show ?case using Cons.IH [OF m] by simp
qed

lemma valid_no_whitespace:
  "b64_decode s = Some bs \<Longrightarrow> filter (\<lambda>c. \<not> is_ascii_whitespace c) s = s"
proof (induction s arbitrary: bs rule: b64_decode.induct)
  case 1
  show ?case by simp
next
  case (2 c0 c1 c2 c3)
  show ?case
  proof (cases "c3 = CHR ''=''")
    case pad3: True
    show ?thesis
    proof (cases "c2 = CHR ''=''")
      case True
      with pad3 2 obtain n where "b64_values [c0, c1] = Some n"
        by (auto simp del: b64_values.simps)
      from b64_values_no_whitespace [OF this] True pad3 show ?thesis
        by (simp add: pad_not_whitespace split: if_splits)
    next
      case False
      with pad3 2 obtain n where "b64_values [c0, c1, c2] = Some n"
        by (auto simp del: b64_values.simps)
      from b64_values_no_whitespace [OF this] pad3 show ?thesis
        by (simp add: pad_not_whitespace split: if_splits)
    qed
  next
    case False
    with 2 obtain n where "b64_values [c0, c1, c2, c3] = Some n"
      by (auto simp del: b64_values.simps)
    from b64_values_no_whitespace [OF this] show ?thesis by simp
  qed
next
  case (3 c0 c1 c2 c3 v va)
  from "3.prems" obtain n bs' where n: "b64_values [c0, c1, c2, c3] = Some n"
      and r: "b64_decode (v # va) = Some bs'"
    by (auto simp del: b64_values.simps split: option.splits)
  have "filter (\<lambda>c. \<not> is_ascii_whitespace c) ([c0, c1, c2, c3] @ (v # va))
      = [c0, c1, c2, c3] @ (v # va)"
    unfolding filter_append
    using b64_values_no_whitespace [OF n] "3.IH" [OF r] by (simp only:)
  then show ?case by simp
qed simp_all

lemma atob_valid: "b64_decode data = Some bs \<Longrightarrow> atob data = Some (map fromCharCode bs)"
  by (simp add: atob_def valid_no_whitespace forgiving_decode_strict)


lemma charCodeAt_fromCharCode: "charCodeAt (fromCharCode b) = b"
proof -
  have "unat b mod 256 = unat b" using byte_less [of b] by simp
  then show ?thesis by (simp add: charCodeAt_def fromCharCode_def)
qed

lemma charCodeAt_binary: "map charCodeAt (map fromCharCode bs) = bs"
  by (induction bs) (simp_all add: charCodeAt_fromCharCode)

lemma atob_sample: "atob ''AQID'' = Some (map fromCharCode [1, 2, 3])"
  using atob_encode [of "[1, 2, 3]"] by (simp only: b64_encode_sample)

lemma blob_type_pdf: "blob_type ''application/pdf'' = ''application/pdf''"
  by (simp add: blob_type_def char_eval)

section \<open>The write step\<close>

text \<open>The loop of \<open>onWrite\<close> appends the whole input to the destination, chunk by chunk.\<close>

lemma copy_loop_all: "copy_loop input out = out @ input"
proof (induction input out rule: copy_loop.induct)
  case (1 input out)
  show ?case
  proof (cases "input = []")
    case True
    then show ?thesis by (simp add: copy_loop.simps [of "[]"] input_read_def)
  next
    case False
    define chunk where "chunk = take 1024 input"
    have r: "input_read input = (int (length chunk), chunk, drop 1024 input)"
      using False by (simp add: input_read_def chunk_def)
    have pos: "0 < int (length chunk)" using False by (simp add: chunk_def)
    have "copy_loop input out = copy_loop (drop 1024 input) (out @ take (nat (int (length chunk))) chunk)"
      using pos by (simp add: copy_loop.simps [of input] r)
    also have "\<dots> = (out @ take (nat (int (length chunk))) chunk) @ drop 1024 input"
      by (rule "1.IH" [OF r [symmetric] refl pos])
    also have "\<dots> = out @ input"
    proof -
      have "take (nat (int (length chunk))) chunk = chunk" by simp
      then show ?thesis by (simp only: chunk_def append_assoc append_take_drop_id)
    qed
    finally show ?thesis .
  qed
qed



text \<open>
  So each \<open>onWrite\<close> either reports a failure and writes nothing, or reports success
  and has appended the whole stream it opened. The file adapter opens, in the files
  directory of the application, the file that has the name of its source.
\<close>

lemma PdfDocumentAdapter_onWrite_eq:
  "PdfDocumentAdapter_onWrite ctx file s destination =
     (case files s (getFilesDir ctx @ ''/'' @ file_getName file) of
        None \<Rightarrow> (WriteFailed (getFilesDir ctx @ ''/'' @ file_getName file), destination)
      | Some input \<Rightarrow> (WriteFinished, destination @ input))"
  by (simp add: PdfDocumentAdapter_onWrite_def openFileInput_def copy_loop_all
      split: option.splits)

lemma UriDocumentAdapter_onWrite_eq:
  "UriDocumentAdapter_onWrite ctx uri destination =
     (case openInputStream ctx uri of
        OpenThrows m \<Rightarrow> (WriteFailed m, destination)
      | NullStream \<Rightarrow> (WriteFailed ''Failed to open file'', destination)
      | Stream input \<Rightarrow> (WriteFinished, destination @ input))"
  by (simp add: UriDocumentAdapter_onWrite_def copy_loop_all split: open_result.splits)

lemma temp_name: "file_getName ''/data/user/0/app/cache/print_temp4711.pdf'' = ''print_temp4711.pdf''"
  by (simp add: file_getName_def substring_def Let_def)



section \<open>Round trip of encoded data, and the write step that follows\<close>

text \<open>
  C1. The bytes 01 02 03 are encoded as \<open>AQID\<close>. \<open>printBase64\<close> with
  \<open>application/pdf\<close> succeeds; the temporary file in the cache directory holds exactly
  those bytes, and its adapter is registered. The layout pass over that adapter then
  fails and copies nothing, because \<open>onWrite\<close> looks for \<open>print_temp4711.pdf\<close> in the
  files directory. When the files directory happens to hold a file of that name, the
  pass finishes with the bytes of that file in the destination, not those of the
  adapter's source.
\<close>

theorem temp_artifact_not_written_out:
  "b64_encode [1, 2, 3] = ''AQID''
   \<and> fst (printBase64 device ''AQID'' ''application/pdf'' ''Doc'' no_files) = Inr ()
   \<and> files (snd (printBase64 device ''AQID'' ''application/pdf'' ''Doc'' no_files))
        ''/data/user/0/app/cache/print_temp4711.pdf'' = Some [1, 2, 3]
   \<and> ui (snd (printBase64 device ''AQID'' ''application/pdf'' ''Doc'' no_files))
        = [PrintDocument ''Doc'' (PdfDocumentAdapter ''/data/user/0/app/cache/print_temp4711.pdf'')]
   \<and> layout_pass device (PdfDocumentAdapter ''/data/user/0/app/cache/print_temp4711.pdf'') False
        (snd (printBase64 device ''AQID'' ''application/pdf'' ''Doc'' no_files)) []
        = (Failed, [])
   \<and> layout_pass device (PdfDocumentAdapter ''/data/user/0/app/cache/print_temp4711.pdf'') False
        ((snd (printBase64 device ''AQID'' ''application/pdf'' ''Doc'' no_files))
           \<lparr>files := (files (snd (printBase64 device ''AQID'' ''application/pdf''
                ''Doc'' no_files)))(''/data/user/0/app/files/print_temp4711.pdf'' \<mapsto> [9])\<rparr>) []
        = (Finished, [9])"
proof -
  define s1 where "s1 = snd (printBase64 device ''AQID'' ''application/pdf'' ''Doc'' no_files)"
  have run: "printBase64 device ''AQID'' ''application/pdf'' ''Doc'' no_files
      = (Inr (), \<lparr>files = (\<lambda>p. None)(''/data/user/0/app/cache/print_temp4711.pdf'' \<mapsto> [1, 2, 3]),
           ui = [PrintDocument ''Doc'' (PdfDocumentAdapter ''/data/user/0/app/cache/print_temp4711.pdf'')],
           webViews = []\<rparr>)"
    by (simp add: printBase64_def device_def no_files_def b64_decode_sample
        startsWith_def saveTempFile_def getExtension_pdf printDocument_def
        Let_def del: b64_decode.simps)
  have s1: "s1 = \<lparr>files = (\<lambda>p. None)(''/data/user/0/app/cache/print_temp4711.pdf'' \<mapsto> [1, 2, 3]),
           ui = [PrintDocument ''Doc'' (PdfDocumentAdapter ''/data/user/0/app/cache/print_temp4711.pdf'')],
           webViews = []\<rparr>"
    by (simp add: s1_def run)
  have fails: "layout_pass device (PdfDocumentAdapter ''/data/user/0/app/cache/print_temp4711.pdf'')
      False s1 [] = (Failed, [])"
    by (simp add: layout_pass_def PdfDocumentAdapter_onLayout_def PdfDocumentAdapter_onWrite_eq
        temp_name s1 device_def)
  have other: "layout_pass device (PdfDocumentAdapter ''/data/user/0/app/cache/print_temp4711.pdf'')
      False (s1\<lparr>files := (files s1)(''/data/user/0/app/files/print_temp4711.pdf'' \<mapsto> [9])\<rparr>) []
      = (Finished, [9])"
    by (simp add: layout_pass_def PdfDocumentAdapter_onLayout_def PdfDocumentAdapter_onWrite_eq
        temp_name s1 device_def)
  show ?thesis
    using run fails other b64_encode_sample unfolding s1_def by simp
qed


section \<open>Sources that do not exist\<close>

text \<open>
  C2. The content resolver of the sample device does not know
  \<open>content://absent/doc\<close>. \<open>printFile\<close> fails with \<open>File not found\<close> and presents
  nothing; \<open>printPdf\<close> succeeds and registers a document adapter for the absent
  document with the print manager.
\<close>

theorem printPdf_absent_content_uri:
  "\<not> documentFile_exists device ''content://absent/doc''
   \<and> printFile device ''content://absent/doc'' None ''X'' no_files
       = (Inl (Exception ''File not found: content://absent/doc''), no_files)
   \<and> printPdf device ''content://absent/doc'' ''X'' no_files
       = (Inr (), no_files\<lparr>ui := [PrintDocument ''X'' (UriDocumentAdapter ''content://absent/doc'')]\<rparr>)"
  by (simp add: device_def no_files_def printFile_def printPdf_def printDocumentFromUri_def
      sample_getScheme_def)

section \<open>The image branch\<close>





section \<open>The MIME type of a path\<close>

text \<open>
  C4, as stated, fails. Read to the letter, \<open>PDF\<close> is not an entry of the table, and
  the usual device answers \<open>application/pdf\<close> for \<open>Scan.PDF\<close>. Read without regard to
  case, \<open>GIF\<close> is the entry \<open>gif\<close>, and a device with a Turkish default locale
  answers \<open>application/octet-stream\<close> for \<open>x.GIF\<close>, where the usual device answers
  \<open>image/gif\<close>.
\<close>

theorem extension_case_counterexample:
  "path_extension ''/sdcard/Scan.PDF'' = ''PDF''
   \<and> spec_mime_table ''PDF'' = ''application/octet-stream''
   \<and> getMimeTypeFromPath device ''/sdcard/Scan.PDF'' = ''application/pdf''
   \<and> path_extension ''/sdcard/x.GIF'' = ''GIF''
   \<and> getMimeTypeFromPath device ''/sdcard/x.GIF'' = ''image/gif''
   \<and> getMimeTypeFromPath turkish_device ''/sdcard/x.GIF'' = ''application/octet-stream''"
  by (simp add: getMimeTypeFromPath_def spec_mime_table_def path_extension_def substring_def
      device_def turkish_device_def dotless_i_def char_eval Let_def)


text \<open>
  C4, amended. On a device whose default locale is neither Turkish nor Azeri, and for a
  path whose extension has ASCII characters only, \<open>getMimeTypeFromPath\<close> is the table
  applied to the lower-cased extension, where the extension is the text after the last
  dot (the whole path when it has no dot); and \<open>printFile\<close> on a direct path without a
  declared type behaves as with that type declared.
\<close>

theorem mime_from_lowercased_extension:
  "(defaultLocale ctx = OtherLocale \<and> list_all isAscii (path_extension path) \<longrightarrow>
      getMimeTypeFromPath ctx path = spec_mime_table (map toLowerCase_char (path_extension path)))
   \<and> (CHR ''.'' \<notin> set e \<longrightarrow> path_extension (b @ CHR ''.'' # e) = e)
   \<and> (CHR ''.'' \<notin> set path \<longrightarrow> path_extension path = path)
   \<and> (uri_getScheme ctx uri \<noteq> Some ''content'' \<and> uri_getPath ctx uri = Some p \<longrightarrow>
        printFile ctx uri None name s
          = printFile ctx uri (Some (getMimeTypeFromPath ctx (file_getPath ctx p))) name s)"
  by (simp add: getMimeTypeFromPath_table path_extension_after_dot path_extension_no_dot
      printFile_def Let_def)

theorem mime_from_lowercased_extension_witness:
  "getMimeTypeFromPath device ''/sdcard/Scan.PDF'' = ''application/pdf''
   \<and> getMimeTypeFromPath device ''/sdcard/notes.txt'' = ''application/octet-stream''
   \<and> path_extension ''README'' = ''README''
   \<and> printFile device ''file:///sdcard/a.PNG'' None ''Photo'' sdcard
       = (Inr (), sdcard\<lparr>ui := [PrintBitmap ''Photo'' (Bitmap [137, 80])]\<rparr>)
   \<and> printFile device ''file:///sdcard/Scan.PDF'' None ''Scan'' sdcard
       = (Inr (), sdcard\<lparr>ui := [PrintDocument ''Scan'' (PdfDocumentAdapter ''/sdcard/Scan.PDF'')]\<rparr>)"
proof -
  have loc: "defaultLocale device = OtherLocale"
    by (simp add: device_def)
  have ext: "path_extension ''/sdcard/Scan.PDF'' = ''PDF''"
    using mime_from_lowercased_extension [where e = "''PDF''" and b = "''/sdcard/Scan''"]
    by simp
  have ext2: "path_extension ''/sdcard/notes.txt'' = ''txt''"
    using mime_from_lowercased_extension [where e = "''txt''" and b = "''/sdcard/notes''"]
    by simp
  have ext3: "path_extension ''/sdcard/a.PNG'' = ''PNG''"
    using mime_from_lowercased_extension [where e = "''PNG''" and b = "''/sdcard/a''"]
    by simp
  have pdf: "getMimeTypeFromPath device ''/sdcard/Scan.PDF'' = ''application/pdf''"
    using mime_from_lowercased_extension [where ctx = device and path = "''/sdcard/Scan.PDF''"]
      loc ext
    by (simp add: spec_mime_table_def isAscii_def toLowerCase_char_def char_of_def bit_Suc_0_iff)
  have txt': "getMimeTypeFromPath device ''/sdcard/notes.txt'' = ''application/octet-stream''"
    using mime_from_lowercased_extension [where ctx = device and path = "''/sdcard/notes.txt''"]
      loc ext2
    by (simp add: spec_mime_table_def isAscii_def toLowerCase_char_def char_of_def bit_Suc_0_iff)
  have png: "getMimeTypeFromPath device ''/sdcard/a.PNG'' = ''image/png''"
    using mime_from_lowercased_extension [where ctx = device and path = "''/sdcard/a.PNG''"]
      loc ext3
    by (simp add: spec_mime_table_def isAscii_def toLowerCase_char_def char_of_def bit_Suc_0_iff)
  have plain: "path_extension ''README'' = ''README''"
    using mime_from_lowercased_extension [where path = "''README''"] by simp
  have direct: "uri_getScheme device ''file:///sdcard/a.PNG'' \<noteq> Some ''content''"
      "uri_getPath device ''file:///sdcard/a.PNG'' = Some ''/sdcard/a.PNG''"
      "uri_getScheme device ''file:///sdcard/Scan.PDF'' \<noteq> Some ''content''"
      "uri_getPath device ''file:///sdcard/Scan.PDF'' = Some ''/sdcard/Scan.PDF''"
      "file_getPath device = (\<lambda>p. p)"
    by (simp_all add: device_def sample_getScheme_def sample_getPath_def startsWith_def)
  have "printFile device ''file:///sdcard/a.PNG'' None ''Photo'' sdcard
       = printFile device ''file:///sdcard/a.PNG'' (Some ''image/png'') ''Photo'' sdcard"
    using mime_from_lowercased_extension [where ctx = device and uri = "''file:///sdcard/a.PNG''"
        and p = "''/sdcard/a.PNG''" and name = "''Photo''" and s = sdcard] direct png
    by simp
  also have "\<dots> = (Inr (), sdcard\<lparr>ui := [PrintBitmap ''Photo'' (Bitmap [137, 80])]\<rparr>)"
    using direct
    by (simp add: printFile_def file_exists_def decodeFile_def sdcard_def startsWith_def
        printImage_def device_def sample_decodeByteArray_def Let_def)
  finally have photo: "printFile device ''file:///sdcard/a.PNG'' None ''Photo'' sdcard
       = (Inr (), sdcard\<lparr>ui := [PrintBitmap ''Photo'' (Bitmap [137, 80])]\<rparr>)" .
  have "printFile device ''file:///sdcard/Scan.PDF'' None ''Scan'' sdcard
       = printFile device ''file:///sdcard/Scan.PDF'' (Some ''application/pdf'') ''Scan'' sdcard"
    using mime_from_lowercased_extension [where ctx = device and uri = "''file:///sdcard/Scan.PDF''"
        and p = "''/sdcard/Scan.PDF''" and name = "''Scan''" and s = sdcard] direct pdf
    by simp
  also have "\<dots> = (Inr (), sdcard\<lparr>ui := [PrintDocument ''Scan'' (PdfDocumentAdapter ''/sdcard/Scan.PDF'')]\<rparr>)"
    using direct
    by (simp add: printFile_def file_exists_def sdcard_def startsWith_def
        printDocument_def device_def Let_def)
  finally have scan: "printFile device ''file:///sdcard/Scan.PDF'' None ''Scan'' sdcard
       = (Inr (), sdcard\<lparr>ui := [PrintDocument ''Scan'' (PdfDocumentAdapter ''/sdcard/Scan.PDF'')]\<rparr>)" .
  from pdf txt' plain photo scan show ?thesis by simp
qed

section \<open>Malformed base64\<close>





section \<open>Markup that does not render\<close>

text \<open>
  C6. The \<open>WebView\<close> of the sample device never finishes \<open><unrenderable>\<close>. The Android
  \<open>printHtml\<close> reports success all the same: it has registered the \<open>WebView\<close> and
  returned. The browser adapter, given markup whose \<open>iframe\<close> fires \<open>onerror\<close>, rejects
  the request with \<open>Failed to load content for printing\<close>.
\<close>

theorem printHtml_unrenderable_reports_success:
  "\<not> webView_pageFinished device ''<unrenderable>''
   \<and> printHtml_then_load device ''<unrenderable>'' ''Note'' no_files
       = (Inr (), no_files\<lparr>webViews := [(WebView ''<unrenderable>'', ''Note'')]\<rparr>)
   \<and> load sample_browser ''blob:aa'' = OnError
   \<and> fst (web_printHtml sample_browser ''<unrenderable>'' (Some ''Note'')
          (blank_page\<lparr>urlsCreated := 1\<rparr>))
       = Rejected (Error ''Failed to load content for printing'')"
  by (simp add: device_def printHtml_then_load_def printHtml_def no_files_def
      sample_browser_def web_printHtml_def createObjectURL_def printFromUrl_def
      blank_page_def Let_def)


section \<open>Temporary artifacts\<close>




section \<open>Cancellation at layout\<close>




section \<open>No print service\<close>

text \<open>
  C9. On a device without a print service, \<open>printDocument\<close> and \<open>printDocumentFromUri\<close>
  throw \<open>Print service not available\<close>, whereas \<open>createWebPrintJob\<close> returns without
  doing anything: \<open>printWebView\<close> and \<open>printHtml\<close> (also after the page has finished
  loading) succeed and present no print UI.
\<close>

theorem print_service_unavailable:
  assumes "\<not> printManager ctx"
  shows "printDocument ctx file name s = (Inl (Exception ''Print service not available''), s)
       \<and> printDocumentFromUri ctx uri name s = (Inl (Exception ''Print service not available''), s)
       \<and> createWebPrintJob ctx view name s = s
       \<and> printWebView ctx (Some view) name s = (Inr (), s)
       \<and> fst (printHtml_then_load ctx html name s) = Inr ()
       \<and> ui (snd (printHtml_then_load ctx html name s)) = ui s"
  using assms
  by (simp add: printDocument_def printDocumentFromUri_def createWebPrintJob_def
      printWebView_def printHtml_then_load_def printHtml_def onPageFinished_def)

theorem print_service_unavailable_witness:
  "printDocument device_without_print_service ''/sdcard/a.pdf'' ''Doc'' no_files
     = (Inl (Exception ''Print service not available''), no_files)
   \<and> printWebView device_without_print_service (Some (WebView ''<p>Hi</p>'')) ''Page'' no_files
     = (Inr (), no_files)
   \<and> ui (snd (printHtml_then_load device_without_print_service ''<p>Hi</p>'' ''Note'' no_files)) = []"
proof -
  have h: "\<not> printManager device_without_print_service"
    by (simp add: device_without_print_service_def device_def)
  show ?thesis
    using print_service_unavailable [OF h, of "''/sdcard/a.pdf''" "''Doc''" no_files]
      print_service_unavailable [OF h, of _ "''Page''" no_files _ "WebView ''<p>Hi</p>''"]
      print_service_unavailable [OF h, of _ "''Note''" no_files _ _ "''<p>Hi</p>''"]
    by (simp add: no_files_def)
qed


section \<open>The plugin version\<close>

text \<open>
  C10. \<open>getPluginVersion\<close> resolves to the version \<open>7.0.0\<close> after any sequence of calls
  of the session, it leaves the page as it was, and a second call gives what the first
  gave.
\<close>

theorem getPluginVersion_constant:
  "fst (getPluginVersion (session env calls s)) = Resolved \<lparr>version = ''7.0.0''\<rparr>
   \<and> fst (getPluginVersion (snd (getPluginVersion s))) = fst (getPluginVersion s)
   \<and> snd (getPluginVersion s) = s"
  by (simp add: getPluginVersion_def)




section \<open>Further properties of the adapters\<close>

text \<open>
  In the browser adapter a load error of the markup is a rejection, and no window has
  printed. The Android \<open>printHtml\<close> presents nothing by itself, and when the page never
  finishes no print job is registered afterwards either.
\<close>

theorem markup_load_failure:
  "(load env (''blob:'' @ uuid env (urlsCreated p)) = OnError \<longrightarrow>
      fst (web_printHtml env html name' p) = Rejected (Error ''Failed to load content for printing'')
      \<and> iframePrints (snd (web_printHtml env html name' p)) = iframePrints p
      \<and> windowPrints (snd (web_printHtml env html name' p)) = windowPrints p)
   \<and> fst (printHtml_then_load ctx html name s) = Inr ()
   \<and> ui (snd (printHtml ctx html name s)) = ui s
   \<and> (\<not> webView_pageFinished ctx html \<longrightarrow>
        ui (snd (printHtml_then_load ctx html name s)) = ui s)"
  by (simp add: web_printHtml_def createObjectURL_def printFromUrl_def removeChild_def
      printHtml_then_load_def printHtml_def Let_def)

theorem markup_load_failure_witness:
  "fst (web_printHtml sample_browser ''<p>Hi</p>'' (Some ''Note'') (blank_page\<lparr>urlsCreated := 1\<rparr>))
     = Rejected (Error ''Failed to load content for printing'')
   \<and> iframePrints (snd (web_printHtml sample_browser ''<p>Hi</p>'' (Some ''Note'')
        (blank_page\<lparr>urlsCreated := 1\<rparr>))) = []
   \<and> fst (printHtml_then_load device ''<unrenderable>'' ''Note'' no_files) = Inr ()
   \<and> ui (snd (printHtml_then_load device ''<unrenderable>'' ''Note'' no_files)) = []"
proof -
  have err: "load sample_browser (''blob:'' @ uuid sample_browser (urlsCreated (blank_page\<lparr>urlsCreated := 1\<rparr>)))
      = OnError"
    by (simp add: sample_browser_def)
  have never: "\<not> webView_pageFinished device ''<unrenderable>''"
    by (simp add: device_def)
  note T = markup_load_failure [where env = sample_browser and p = "blank_page\<lparr>urlsCreated := 1\<rparr>"
      and html = "''<p>Hi</p>''" and name' = "Some ''Note''" and ctx = device
      and name = "''Note''" and s = no_files]
  have 1: "fst (web_printHtml sample_browser ''<p>Hi</p>'' (Some ''Note'') (blank_page\<lparr>urlsCreated := 1\<rparr>))
     = Rejected (Error ''Failed to load content for printing'')
   \<and> iframePrints (snd (web_printHtml sample_browser ''<p>Hi</p>'' (Some ''Note'')
        (blank_page\<lparr>urlsCreated := 1\<rparr>))) = []"
    using T err by (simp add: blank_page_def)
  have 2: "fst (printHtml_then_load device ''<unrenderable>'' ''Note'' no_files) = Inr ()
   \<and> ui (snd (printHtml_then_load device ''<unrenderable>'' ''Note'' no_files)) = []"
    using markup_load_failure [where ctx = device and html = "''<unrenderable>''"
        and name = "''Note''" and s = no_files] never
    by (simp add: no_files_def)
  from 1 2 show ?thesis by blast
qed


text \<open>
  The write step of the URI adapter: a failure with the destination untouched, or
  success with the whole stream appended to the destination.
\<close>

theorem uri_write_copies_everything:
  "UriDocumentAdapter_onWrite ctx uri destination =
     (case openInputStream ctx uri of
        OpenThrows m \<Rightarrow> (WriteFailed m, destination)
      | NullStream \<Rightarrow> (WriteFailed ''Failed to open file'', destination)
      | Stream input \<Rightarrow> (WriteFinished, destination @ input))"
  by (rule UriDocumentAdapter_onWrite_eq)

text \<open>
  The write step of the file adapter, in terms of the files directory: it reads the file
  there that has the name of the adapter's source, wherever the source is.
\<close>

theorem file_write_reads_files_directory:
  "PdfDocumentAdapter_onWrite ctx file s destination =
     (case files s (getFilesDir ctx @ ''/'' @ file_getName file) of
        None \<Rightarrow> (WriteFailed (getFilesDir ctx @ ''/'' @ file_getName file), destination)
      | Some input \<Rightarrow> (WriteFinished, destination @ input))"
  by (rule PdfDocumentAdapter_onWrite_eq)

text \<open>
  On a host that decodes as the reference codec does, \<open>printBase64\<close> of the encoding of
  any bytes with \<open>application/pdf\<close> leaves a temporary file with exactly those bytes.
\<close>

theorem temp_artifact_holds_encoded_bytes:
  "base64_decode ctx = b64_decode \<and> createTempFile_random ctx = Some r \<longrightarrow>
     files (snd (printBase64 ctx (b64_encode bs) ''application/pdf'' name s))
       (getCacheDir ctx @ ''/print_temp'' @ r @ ''.pdf'') = Some bs"
proof -
  have pdf: "\<not> startsWith ''application/pdf'' ''image/''"
    by (simp add: startsWith_def)
  show ?thesis
    by (simp add: printBase64_def saveTempFile_def printDocument_def Let_def pdf
        getExtension_pdf b64_decode_encode)
qed

theorem temp_artifact_holds_encoded_bytes_witness:
  "files (snd (printBase64 device (b64_encode [37, 80, 68, 70]) ''application/pdf'' ''Doc'' no_files))
     ''/data/user/0/app/cache/print_temp4711.pdf'' = Some [37, 80, 68, 70]"
  using temp_artifact_holds_encoded_bytes [where ctx = device and r = "''4711''"
      and bs = "[37, 80, 68, 70]" and name = "''Doc''" and s = no_files]
  by (simp add: device_def del: b64_encode.simps)

text \<open>
  A content URI the resolver does not know makes \<open>printFile\<close> fail with
  \<open>File not found\<close>, and so does a direct path without a file for \<open>printFile\<close> and
  \<open>printPdf\<close>; the state is unchanged, so no print UI was presented.
\<close>

theorem missing_source_not_found:
  "(uri_getScheme ctx path = Some ''content'' \<and> \<not> documentFile_exists ctx path \<longrightarrow>
      printFile ctx path mimeType name s = (Inl (Exception (''File not found: '' @ path)), s))
   \<and> (uri_getScheme ctx path \<noteq> Some ''content'' \<and> uri_getPath ctx path = Some p
        \<and> files s (file_getPath ctx p) = None \<longrightarrow>
      printFile ctx path mimeType name s = (Inl (Exception (''File not found: '' @ path)), s)
      \<and> printPdf ctx path name s = (Inl (Exception (''File not found: '' @ path)), s))"
  by (simp add: printFile_def printPdf_def file_exists_def Let_def)

theorem missing_source_not_found_witness:
  "printFile device ''content://absent/doc'' None ''X'' no_files
     = (Inl (Exception ''File not found: content://absent/doc''), no_files)
   \<and> printFile device ''file:///sdcard/none.pdf'' None ''X'' no_files
     = (Inl (Exception ''File not found: file:///sdcard/none.pdf''), no_files)
   \<and> printPdf device ''file:///sdcard/none.pdf'' ''X'' no_files
     = (Inl (Exception ''File not found: file:///sdcard/none.pdf''), no_files)"
proof -
  have c: "uri_getScheme device ''content://absent/doc'' = Some ''content''
      \<and> \<not> documentFile_exists device ''content://absent/doc''"
    by (simp add: device_def sample_getScheme_def)
  have f: "uri_getScheme device ''file:///sdcard/none.pdf'' \<noteq> Some ''content''
      \<and> uri_getPath device ''file:///sdcard/none.pdf'' = Some ''/sdcard/none.pdf''
      \<and> files no_files (file_getPath device ''/sdcard/none.pdf'') = None"
    by (simp add: device_def sample_getScheme_def sample_getPath_def startsWith_def no_files_def)
  have 1: "printFile device ''content://absent/doc'' None ''X'' no_files
     = (Inl (Exception ''File not found: content://absent/doc''), no_files)"
    using missing_source_not_found [where ctx = device and path = "''content://absent/doc''"
        and mimeType = None and name = "''X''" and s = no_files] c
    by simp
  have 2: "printFile device ''file:///sdcard/none.pdf'' None ''X'' no_files
     = (Inl (Exception ''File not found: file:///sdcard/none.pdf''), no_files)
   \<and> printPdf device ''file:///sdcard/none.pdf'' ''X'' no_files
     = (Inl (Exception ''File not found: file:///sdcard/none.pdf''), no_files)"
    using missing_source_not_found [where ctx = device and path = "''file:///sdcard/none.pdf''"
        and p = "''/sdcard/none.pdf''" and mimeType = None and name = "''X''" and s = no_files] f
    by simp
  from 1 2 show ?thesis by blast
qed

text \<open>
  In the browser adapter, when \<open>printBase64\<close> is rejected after decoding, the object URL
  it created is still registered.
\<close>

theorem object_url_kept_on_rejection:
  "b64_decode data = Some bs \<and> fst (web_printBase64 env data mimeType name p) = Rejected e \<longrightarrow>
     (''blob:'' @ uuid env (urlsCreated p), Blob bs (blob_type mimeType))
       \<in> set (objectURLs (snd (web_printBase64 env data mimeType name p)))"
proof -
  have "b64_decode data = Some bs \<Longrightarrow> atob data = Some (map fromCharCode bs)"
    by (rule atob_valid)
  then show ?thesis
    by (auto simp: web_printBase64_def createObjectURL_def printFromUrl_def removeChild_def
        charCodeAt_binary Let_def simp del: map_map
        split: load_event.splits option.splits if_splits)
qed

theorem object_url_kept_on_rejection_witness:
  "fst (web_printBase64 sample_browser ''AQID'' ''application/pdf'' None (blank_page\<lparr>urlsCreated := 1\<rparr>))
     = Rejected (Error ''Failed to load content for printing'')
   \<and> objectURLs (snd (web_printBase64 sample_browser ''AQID'' ''application/pdf'' None
        (blank_page\<lparr>urlsCreated := 1\<rparr>))) = [(''blob:aa'', Blob [1, 2, 3] ''application/pdf'')]"
proof -
  have l: "load sample_browser ''blob:aa'' = OnError" and u: "uuid sample_browser (Suc 0) = ''aa''"
    by (simp_all add: sample_browser_def)
  have run: "web_printBase64 sample_browser ''AQID'' ''application/pdf'' None (blank_page\<lparr>urlsCreated := 1\<rparr>)
      = (Rejected (Error ''Failed to load content for printing''),
         blank_page\<lparr>urlsCreated := 2, iframesCreated := 1,
            objectURLs := [(''blob:aa'', Blob [1, 2, 3] ''application/pdf'')]\<rparr>)"
    by (simp add: web_printBase64_def atob_sample charCodeAt_fromCharCode blob_type_pdf l u
        createObjectURL_def printFromUrl_def removeChild_def blank_page_def Let_def)
  show ?thesis
    using object_url_kept_on_rejection [where env = sample_browser and data = "''AQID''"
        and mimeType = "''application/pdf''" and name = None and p = "blank_page\<lparr>urlsCreated := 1\<rparr>"
        and e = "Error ''Failed to load content for printing''" and bs = "[1, 2, 3]"]
      b64_decode_sample run
    by (simp add: blank_page_def)
qed

end
